theory Spec2Isabelle
  imports Complex_Main "HOL-Library.Sublist"
begin

section \<open>JavaScript values\<close>

text \<open>
  Strings are lists of bytes: the UTF-8 encoding of the JavaScript string. All string
  operations of \<^verbatim>\<open>App.jsx\<close> used below (prefix test, split at an ASCII
  separator, trimming, padding, concatenation) act on the UTF-8 bytes as they act on the
  characters. Numbers are exact rationals, with NaN and the two infinities: the rounding
  and the overflow of binary64 arithmetic are not part of this model, and the two zeros
  are one.
\<close>

datatype jsnum = NaN | Infinity bool | Fin rat

datatype jsval =
    JUndefined
  | JNull
  | JBool bool
  | JNum jsnum
  | JStr string
  | JArr "jsval list"
  | JObj "(string \<times> jsval) list"

subsection \<open>Strings\<close>

text \<open>\<^verbatim>\<open>String(n)\<close> for a non-negative integer and for an integer.\<close>

definition digit_char :: "nat \<Rightarrow> char" where
  "digit_char d = char_of (48 + d)"

fun string_of_nat :: "nat \<Rightarrow> string" where
  "string_of_nat n =
     (if 10 \<le> n then string_of_nat (n div 10) @ [digit_char (n mod 10)] else [digit_char n])"

declare string_of_nat.simps [simp del]

definition string_of_int :: "int \<Rightarrow> string" where
  "string_of_int i = (if i < 0 then CHR ''-'' # string_of_nat (nat (- i)) else string_of_nat (nat i))"

text \<open>\<^verbatim>\<open>s.padStart(n, c)\<close> for a one-character pad string.\<close>

definition padStart :: "nat \<Rightarrow> char \<Rightarrow> string \<Rightarrow> string" where
  "padStart n c s = replicate (n - length s) c @ s"

text \<open>\<^verbatim>\<open>s.split(sep)\<close> for a one-character separator: never an empty array.\<close>

fun split_on :: "char \<Rightarrow> string \<Rightarrow> string list" where
  "split_on sep [] = [[]]"
| "split_on sep (c # cs) =
     (if c = sep then [] # split_on sep cs
      else (case split_on sep cs of w # ws \<Rightarrow> (c # w) # ws | [] \<Rightarrow> [[c]]))"

text \<open>
  \<^verbatim>\<open>s.trim()\<close>. The white space and line terminators of ECMAScript, by their
  UTF-8 encodings: U+0009..U+000D and U+0020 (one byte), U+00A0 (C2 A0), and U+1680,
  U+2000..U+200A, U+2028, U+2029, U+202F, U+205F, U+3000, U+FEFF (three bytes).
\<close>

definition is_ws1 :: "char \<Rightarrow> bool" where
  "is_ws1 a = (of_char a \<in> {9, 10, 11, 12, 13, 32 :: nat})"

definition is_ws2 :: "char \<Rightarrow> char \<Rightarrow> bool" where
  "is_ws2 a b = (of_char a = (0xC2 :: nat) \<and> of_char b = (0xA0 :: nat))"

definition is_ws3 :: "char \<Rightarrow> char \<Rightarrow> char \<Rightarrow> bool" where
  "is_ws3 a b c =
     (let x = of_char a :: nat; y = of_char b :: nat; z = of_char c :: nat in
        (x = 0xE1 \<and> y = 0x9A \<and> z = 0x80)
      \<or> (x = 0xE2 \<and> y = 0x80 \<and> (0x80 \<le> z \<and> z \<le> 0x8A \<or> z = 0xA8 \<or> z = 0xA9 \<or> z = 0xAF))
      \<or> (x = 0xE2 \<and> y = 0x81 \<and> z = 0x9F)
      \<or> (x = 0xE3 \<and> y = 0x80 \<and> z = 0x80)
      \<or> (x = 0xEF \<and> y = 0xBB \<and> z = 0xBF))"

text \<open>
  Stripping white space from the front of a byte list. The flag says in which order a
  multi-byte character's bytes are met: \<open>False\<close> from the front of the string,
  \<open>True\<close> from its end.
\<close>

fun strip_ws :: "bool \<Rightarrow> string \<Rightarrow> string" where
  "strip_ws r (a # b # c # s) =
     (if is_ws1 a then strip_ws r (b # c # s)
      else if (if r then is_ws2 b a else is_ws2 a b) then strip_ws r (c # s)
      else if (if r then is_ws3 c b a else is_ws3 a b c) then strip_ws r s
      else a # b # c # s)"
| "strip_ws r [a, b] =
     (if is_ws1 a then strip_ws r [b]
      else if (if r then is_ws2 b a else is_ws2 a b) then []
      else [a, b])"
| "strip_ws r [a] = (if is_ws1 a then [] else [a])"
| "strip_ws r [] = []"

definition trim :: "string \<Rightarrow> string" where
  "trim s = rev (strip_ws True (rev (strip_ws False s)))"

subsection \<open>Numbers\<close>

definition is_digit :: "char \<Rightarrow> bool" where
  "is_digit c = (48 \<le> (of_char c :: nat) \<and> (of_char c :: nat) \<le> 57)"

definition digit_val :: "char \<Rightarrow> nat" where
  "digit_val c = of_char c - 48"

definition nat_of_digits :: "string \<Rightarrow> nat" where
  "nat_of_digits ds = foldl (\<lambda>n c. 10 * n + digit_val c) 0 ds"

definition pow10 :: "int \<Rightarrow> rat" where
  "pow10 e = (if 0 \<le> e then 10 ^ nat e else 1 / 10 ^ nat (- e))"

text \<open>The exponent part of a numeric literal, when one follows the digits: its value.\<close>

definition exponent_part :: "string \<Rightarrow> int option" where
  "exponent_part s =
     (case s of
        [] \<Rightarrow> Some 0
      | c # r \<Rightarrow>
          if c = CHR ''e'' \<or> c = CHR ''E'' then
            (let neg = (take 1 r = ''-'');
                 ds = (if take 1 r = ''-'' \<or> take 1 r = ''+'' then drop 1 r else r)
             in if ds \<noteq> [] \<and> list_all is_digit ds
                then Some (if neg then - int (nat_of_digits ds) else int (nat_of_digits ds))
                else None)
          else None)"

text \<open>
  \<^verbatim>\<open>Number(s)\<close> for a string (StringToNumber of ECMAScript): white space around
  the literal is dropped and an empty string is 0; a literal is \<^verbatim>\<open>Infinity\<close> or
  decimal digits with an optional fraction and exponent, after an optional sign, or an
  unsigned hexadecimal, octal or binary integer; everything else is NaN.
\<close>

definition unsigned_decimal :: "string \<Rightarrow> jsnum option" where
  "unsigned_decimal s =
     (if s = ''Infinity'' then Some (Infinity True)
      else
        let ip = takeWhile is_digit s;
            r1 = dropWhile is_digit s;
            dot = (take 1 r1 = ''.'');
            fp = (if dot then takeWhile is_digit (drop 1 r1) else []);
            r2 = (if dot then dropWhile is_digit (drop 1 r1) else r1)
        in if ip = [] \<and> fp = [] then None
           else (case exponent_part r2 of
                   None \<Rightarrow> None
                 | Some e \<Rightarrow>
                     Some (Fin (of_nat (nat_of_digits (ip @ fp)) * pow10 (e - int (length fp))))))"

definition radix_digit :: "nat \<Rightarrow> char \<Rightarrow> nat option" where
  "radix_digit b c =
     (let n = of_char c :: nat;
          v = (if 48 \<le> n \<and> n \<le> 57 then Some (n - 48)
               else if 97 \<le> n \<and> n \<le> 102 then Some (n - 87)
               else if 65 \<le> n \<and> n \<le> 70 then Some (n - 55)
               else None)
      in case v of Some d \<Rightarrow> if d < b then Some d else None | None \<Rightarrow> None)"

definition non_decimal :: "string \<Rightarrow> jsnum option" where
  "non_decimal s =
     (case s of
        z # x # ds \<Rightarrow>
          (let b = (if x = CHR ''x'' \<or> x = CHR ''X'' then 16
                    else if x = CHR ''o'' \<or> x = CHR ''O'' then 8
                    else if x = CHR ''b'' \<or> x = CHR ''B'' then 2
                    else (0 :: nat))
           in if z = CHR ''0'' \<and> b \<noteq> 0 \<and> ds \<noteq> [] \<and> list_all (\<lambda>c. radix_digit b c \<noteq> None) ds
              then Some (Fin (of_nat
                     (foldl (\<lambda>n c. b * n + (case radix_digit b c of Some d \<Rightarrow> d | None \<Rightarrow> 0)) 0 ds)))
              else None)
      | _ \<Rightarrow> None)"

fun negate :: "jsnum \<Rightarrow> jsnum" where
  "negate NaN = NaN"
| "negate (Infinity b) = Infinity (\<not> b)"
| "negate (Fin q) = Fin (- q)"

definition string_to_number :: "string \<Rightarrow> jsnum" where
  "string_to_number s =
     (let t = trim s in
      if t = [] then Fin 0
      else (case non_decimal t of
              Some n \<Rightarrow> n
            | None \<Rightarrow>
                if take 1 t = ''-'' then
                  (case unsigned_decimal (drop 1 t) of Some n \<Rightarrow> negate n | None \<Rightarrow> NaN)
                else if take 1 t = ''+'' then
                  (case unsigned_decimal (drop 1 t) of Some n \<Rightarrow> n | None \<Rightarrow> NaN)
                else (case unsigned_decimal t of Some n \<Rightarrow> n | None \<Rightarrow> NaN)))"

text \<open>Addition of two numbers (\<^verbatim>\<open>a + b\<close>).\<close>

fun js_add :: "jsnum \<Rightarrow> jsnum \<Rightarrow> jsnum" where
  "js_add (Fin a) (Fin b) = Fin (a + b)"
| "js_add NaN _ = NaN"
| "js_add _ NaN = NaN"
| "js_add (Infinity a) (Infinity b) = (if a = b then Infinity a else NaN)"
| "js_add (Infinity a) (Fin _) = Infinity a"
| "js_add (Fin _) (Infinity b) = Infinity b"

subsection \<open>Coercions and property access\<close>

datatype error = SyntaxError | TypeError | Exception string

text \<open>Truthiness (\<^verbatim>\<open>!v\<close>, \<^verbatim>\<open>v || w\<close>, \<^verbatim>\<open>v && w\<close>).\<close>

fun truthy :: "jsval \<Rightarrow> bool" where
  "truthy JUndefined = False"
| "truthy JNull = False"
| "truthy (JBool b) = b"
| "truthy (JNum n) = (n \<noteq> NaN \<and> n \<noteq> Fin 0)"
| "truthy (JStr s) = (s \<noteq> [])"
| "truthy (JArr _) = True"
| "truthy (JObj _) = True"

text \<open>
  The values here are what \<^verbatim>\<open>JSON.parse\<close> and the program build: no property is
  a function. Converting an object to a primitive then throws exactly when the object has
  a property of its own named \<^verbatim>\<open>toString\<close> (it hides the inherited method and
  cannot be called); an array converts through the \<^verbatim>\<open>join\<close> of its elements.
\<close>

fun ToString_throws :: "jsval \<Rightarrow> bool" where
  "ToString_throws (JObj kv) = (''toString'' \<in> fst ` set kv)"
| "ToString_throws (JArr xs) = (\<exists>x \<in> set xs. ToString_throws x)"
| "ToString_throws _ = False"

text \<open>
  \<^verbatim>\<open>Number(v)\<close> where the conversion does not throw. An array of two or more
  elements joins to a text holding a comma, which is no numeric literal; an array of one
  element converts as the text of that element does.
\<close>

fun to_number_total :: "jsval \<Rightarrow> jsnum" where
  "to_number_total JUndefined = NaN"
| "to_number_total JNull = Fin 0"
| "to_number_total (JBool b) = Fin (if b then 1 else 0)"
| "to_number_total (JNum n) = n"
| "to_number_total (JStr s) = string_to_number s"
| "to_number_total (JObj _) = NaN"
| "to_number_total (JArr []) = Fin 0"
| "to_number_total (JArr [x]) =
     (case x of
        JUndefined \<Rightarrow> Fin 0
      | JNull \<Rightarrow> Fin 0
      | JBool _ \<Rightarrow> NaN
      | JObj _ \<Rightarrow> NaN
      | _ \<Rightarrow> to_number_total x)"
| "to_number_total (JArr (x # y # zs)) = NaN"

definition to_number :: "jsval \<Rightarrow> error + jsnum" where
  "to_number v = (if ToString_throws v then Inl TypeError else Inr (to_number_total v))"

text \<open>
  \<^verbatim>\<open>x.k\<close> for a property name \<open>k\<close> that no prototype defines (the program reads
  \<^verbatim>\<open>id\<close>, \<^verbatim>\<open>amount\<close> and \<^verbatim>\<open>dateISO\<close>): reading a property of
  \<^verbatim>\<open>null\<close> or \<^verbatim>\<open>undefined\<close> throws, an object gives the first binding
  of the name, every other value gives \<^verbatim>\<open>undefined\<close>.
\<close>

definition get_prop :: "jsval \<Rightarrow> string \<Rightarrow> error + jsval" where
  "get_prop x k =
     (case x of
        JUndefined \<Rightarrow> Inl TypeError
      | JNull \<Rightarrow> Inl TypeError
      | JObj kv \<Rightarrow> Inr (case map_of kv k of Some v \<Rightarrow> v | None \<Rightarrow> JUndefined)
      | _ \<Rightarrow> Inr JUndefined)"

text \<open>
  \<^verbatim>\<open>a === b\<close>. NaN differs from itself. Two objects are equal only when they are
  the same object; the values of this model carry no identity, and an object-valued
  operand is taken to be an object of its own.
\<close>

fun strict_equals :: "jsval \<Rightarrow> jsval \<Rightarrow> bool" where
  "strict_equals JUndefined JUndefined = True"
| "strict_equals JNull JNull = True"
| "strict_equals (JBool a) (JBool b) = (a = b)"
| "strict_equals (JNum a) (JNum b) = (a \<noteq> NaN \<and> a = b)"
| "strict_equals (JStr a) (JStr b) = (a = b)"
| "strict_equals _ _ = False"

text \<open>\<^verbatim>\<open>xs.filter(p)\<close> for a callback that may throw: the first throw ends the loop.\<close>

fun filter_err :: "('a \<Rightarrow> error + bool) \<Rightarrow> 'a list \<Rightarrow> error + 'a list" where
  "filter_err p [] = Inr []"
| "filter_err p (x # xs) =
     (case p x of
        Inl e \<Rightarrow> Inl e
      | Inr b \<Rightarrow>
          (case filter_err p xs of
             Inl e \<Rightarrow> Inl e
           | Inr ys \<Rightarrow> Inr (if b then x # ys else ys)))"

subsection \<open>Reading JSON\<close>

text \<open>
  \<^verbatim>\<open>JSON.parse(text)\<close>: the text is cut into tokens by a scanner with five
  modes, and the tokens are read by a machine with a stack of the arrays and objects
  that are still open. A text that is not JSON gives \<open>SyntaxError\<close>.
\<close>

datatype token =
  TLBracket | TRBracket | TLBrace | TRBrace | TComma | TColon | TString string | TWord string

definition json_ws :: "char \<Rightarrow> bool" where
  "json_ws c = (of_char c \<in> {32, 9, 10, 13 :: nat})"

definition structural :: "char \<Rightarrow> token option" where
  "structural c =
     (if c = CHR ''['' then Some TLBracket else if c = CHR '']'' then Some TRBracket
      else if c = CHR ''{'' then Some TLBrace else if c = CHR ''}'' then Some TRBrace
      else if c = CHR '','' then Some TComma else if c = CHR '':'' then Some TColon
      else None)"

definition simple_escape :: "char \<Rightarrow> char option" where
  "simple_escape c =
     (if c = CHR 0x22 \<or> c = CHR 0x5C \<or> c = CHR ''/'' then Some c
      else if c = CHR ''b'' then Some (CHR 0x08) else if c = CHR ''f'' then Some (CHR 0x0C)
      else if c = CHR ''n'' then Some (CHR 0x0A) else if c = CHR ''r'' then Some (CHR 0x0D)
      else if c = CHR ''t'' then Some (CHR 0x09) else None)"

text \<open>The UTF-8 bytes of a code point.\<close>

definition utf8 :: "nat \<Rightarrow> string" where
  "utf8 n =
     (if n < 0x80 then [char_of n]
      else if n < 0x800 then [char_of (0xC0 + n div 64), char_of (0x80 + n mod 64)]
      else if n < 0x10000 then
        [char_of (0xE0 + n div 4096), char_of (0x80 + n div 64 mod 64), char_of (0x80 + n mod 64)]
      else
        [char_of (0xF0 + n div 262144), char_of (0x80 + n div 4096 mod 64),
         char_of (0x80 + n div 64 mod 64), char_of (0x80 + n mod 64)])"

text \<open>
  The content of a string literal: bytes of the text (\<open>Inl\<close>) and the code units of
  \<^verbatim>\<open>\uXXXX\<close> escapes (\<open>Inr\<close>), a surrogate pair making one code point.
\<close>

fun decode_units :: "(char + nat) list \<Rightarrow> string" where
  "decode_units [] = []"
| "decode_units (Inl c # r) = c # decode_units r"
| "decode_units [Inr u] = utf8 u"
| "decode_units (Inr u # Inl c # r) = utf8 u @ c # decode_units r"
| "decode_units (Inr u # Inr v # r) =
     (if 0xD800 \<le> u \<and> u < 0xDC00 \<and> 0xDC00 \<le> v \<and> v < 0xE000
      then utf8 (0x10000 + (u - 0xD800) * 1024 + (v - 0xDC00)) @ decode_units r
      else utf8 u @ decode_units (Inr v # r))"

datatype lexmode =
    LOut
  | LWord string
  | LStr "(char + nat) list"
  | LEsc "(char + nat) list"
  | LHex "(char + nat) list" nat nat

definition emit :: "token \<Rightarrow> token list option \<Rightarrow> token list option" where
  "emit t r = map_option (\<lambda>ts. t # ts) r"

fun lex :: "lexmode \<Rightarrow> string \<Rightarrow> token list option" where
  "lex LOut [] = Some []"
| "lex (LWord w) [] = Some [TWord (rev w)]"
| "lex (LStr a) [] = None"
| "lex (LEsc a) [] = None"
| "lex (LHex a k v) [] = None"
| "lex LOut (c # cs) =
     (if json_ws c then lex LOut cs
      else if c = CHR 0x22 then lex (LStr []) cs
      else (case structural c of
              Some t \<Rightarrow> emit t (lex LOut cs)
            | None \<Rightarrow> lex (LWord [c]) cs))"
| "lex (LWord w) (c # cs) =
     (if json_ws c then emit (TWord (rev w)) (lex LOut cs)
      else if c = CHR 0x22 then emit (TWord (rev w)) (lex (LStr []) cs)
      else (case structural c of
              Some t \<Rightarrow> emit (TWord (rev w)) (emit t (lex LOut cs))
            | None \<Rightarrow> lex (LWord (c # w)) cs))"
| "lex (LStr a) (c # cs) =
     (if c = CHR 0x22 then emit (TString (decode_units (rev a))) (lex LOut cs)
      else if c = CHR 0x5C then lex (LEsc a) cs
      else if (of_char c :: nat) < 0x20 then None
      else lex (LStr (Inl c # a)) cs)"
| "lex (LEsc a) (c # cs) =
     (if c = CHR ''u'' then lex (LHex a 4 0) cs
      else (case simple_escape c of
              Some x \<Rightarrow> lex (LStr (Inl x # a)) cs
            | None \<Rightarrow> None))"
| "lex (LHex a k v) (c # cs) =
     (case radix_digit 16 c of
        None \<Rightarrow> None
      | Some h \<Rightarrow>
          if k \<le> 1 then lex (LStr (Inr (16 * v + h) # a)) cs
          else lex (LHex a (k - 1) (16 * v + h)) cs)"

text \<open>A JSON number: an optional minus, an integer part without leading zeros, an
  optional fraction with at least one digit, an optional exponent.\<close>

definition json_number :: "string \<Rightarrow> jsnum option" where
  "json_number w =
     (let neg = (take 1 w = ''-'');
          u = (if neg then drop 1 w else w);
          ip = takeWhile is_digit u;
          r1 = dropWhile is_digit u;
          dot = (take 1 r1 = ''.'');
          fp = (if dot then takeWhile is_digit (drop 1 r1) else []);
          r2 = (if dot then dropWhile is_digit (drop 1 r1) else r1)
      in if ip = [] \<or> (1 < length ip \<and> take 1 ip = ''0'') \<or> (dot \<and> fp = []) then None
         else (case exponent_part r2 of
                 None \<Rightarrow> None
               | Some e \<Rightarrow>
                   Some (Fin ((if neg then - 1 else 1) * of_nat (nat_of_digits (ip @ fp))
                              * pow10 (e - int (length fp))))))"

definition word_value :: "string \<Rightarrow> jsval option" where
  "word_value w =
     (if w = ''true'' then Some (JBool True)
      else if w = ''false'' then Some (JBool False)
      else if w = ''null'' then Some JNull
      else map_option JNum (json_number w))"

text \<open>Defining a property: a name already bound keeps its place and takes the new value.\<close>

fun set_prop :: "string \<Rightarrow> jsval \<Rightarrow> (string \<times> jsval) list \<Rightarrow> (string \<times> jsval) list" where
  "set_prop k v [] = [(k, v)]"
| "set_prop k v (p # ps) = (if fst p = k then (k, v) # ps else p # set_prop k v ps)"

datatype frame =
    FArr "jsval list"
  | FObj "(string \<times> jsval) list"
  | FKey "(string \<times> jsval) list" string

datatype pmode =
  ExpValue | ExpValueOrClose | ExpKey | ExpKeyOrClose | ExpColon | ExpCommaOrClose | Done jsval

fun push_value :: "jsval \<Rightarrow> frame list \<Rightarrow> (pmode \<times> frame list) option" where
  "push_value v [] = Some (Done v, [])"
| "push_value v (FArr xs # st) = Some (ExpCommaOrClose, FArr (v # xs) # st)"
| "push_value v (FKey kvs k # st) = Some (ExpCommaOrClose, FObj (set_prop k v kvs) # st)"
| "push_value v (FObj kvs # st) = None"

definition value_token :: "token \<Rightarrow> frame list \<Rightarrow> (pmode \<times> frame list) option" where
  "value_token t st =
     (case t of
        TString s \<Rightarrow> push_value (JStr s) st
      | TWord w \<Rightarrow> (case word_value w of Some v \<Rightarrow> push_value v st | None \<Rightarrow> None)
      | TLBracket \<Rightarrow> Some (ExpValueOrClose, FArr [] # st)
      | TLBrace \<Rightarrow> Some (ExpKeyOrClose, FObj [] # st)
      | _ \<Rightarrow> None)"

definition close_array :: "frame list \<Rightarrow> (pmode \<times> frame list) option" where
  "close_array st = (case st of FArr xs # st' \<Rightarrow> push_value (JArr (rev xs)) st' | _ \<Rightarrow> None)"

definition close_object :: "frame list \<Rightarrow> (pmode \<times> frame list) option" where
  "close_object st = (case st of FObj kvs # st' \<Rightarrow> push_value (JObj kvs) st' | _ \<Rightarrow> None)"

definition key_token :: "token \<Rightarrow> frame list \<Rightarrow> (pmode \<times> frame list) option" where
  "key_token t st =
     (case t of
        TString k \<Rightarrow> (case st of FObj kvs # st' \<Rightarrow> Some (ExpColon, FKey kvs k # st') | _ \<Rightarrow> None)
      | _ \<Rightarrow> None)"

definition parse_step :: "pmode \<Rightarrow> frame list \<Rightarrow> token \<Rightarrow> (pmode \<times> frame list) option" where
  "parse_step m st t =
     (case m of
        ExpValue \<Rightarrow> value_token t st
      | ExpValueOrClose \<Rightarrow> (if t = TRBracket then close_array st else value_token t st)
      | ExpKey \<Rightarrow> key_token t st
      | ExpKeyOrClose \<Rightarrow> (if t = TRBrace then close_object st else key_token t st)
      | ExpColon \<Rightarrow> (if t = TColon then Some (ExpValue, st) else None)
      | ExpCommaOrClose \<Rightarrow>
          (case t of
             TComma \<Rightarrow>
               (case st of
                  FArr _ # _ \<Rightarrow> Some (ExpValue, st)
                | FObj _ # _ \<Rightarrow> Some (ExpKey, st)
                | _ \<Rightarrow> None)
           | TRBracket \<Rightarrow> close_array st
           | TRBrace \<Rightarrow> close_object st
           | _ \<Rightarrow> None)
      | Done v \<Rightarrow> None)"

fun parse_tokens :: "pmode \<Rightarrow> frame list \<Rightarrow> token list \<Rightarrow> jsval option" where
  "parse_tokens m st [] = (case m of Done v \<Rightarrow> Some v | _ \<Rightarrow> None)"
| "parse_tokens m st (t # ts) =
     (case parse_step m st t of
        None \<Rightarrow> None
      | Some (m', st') \<Rightarrow> parse_tokens m' st' ts)"

definition JSON_parse :: "string \<Rightarrow> error + jsval" where
  "JSON_parse txt =
     (case lex LOut txt of
        None \<Rightarrow> Inl SyntaxError
      | Some ts \<Rightarrow>
          (case parse_tokens ExpValue [] ts of
             None \<Rightarrow> Inl SyntaxError
           | Some v \<Rightarrow> Inr v))"

subsection \<open>Writing numbers and URI components\<close>

text \<open>
  \<^verbatim>\<open>n.toLocaleString("en-US", {minimumFractionDigits: 2, maximumFractionDigits: 2})\<close>:
  the value rounded to hundredths, a tie away from zero; the integer digits in groups of
  three, a point, two fraction digits; a minus sign before a negative value.
\<close>

fun group3 :: "string \<Rightarrow> string" where
  "group3 (a # b # c # d # r) = a # b # c # CHR '','' # group3 (d # r)"
| "group3 ds = ds"

definition toLocaleString_en_US_2 :: "jsnum \<Rightarrow> string" where
  "toLocaleString_en_US_2 n =
     (case n of
        NaN \<Rightarrow> ''NaN''
      | Infinity b \<Rightarrow> (if b then [] else ''-'') @ [CHR 0xE2, CHR 0x88, CHR 0x9E]
      | Fin q \<Rightarrow>
          (let c = nat \<lfloor>\<bar>q\<bar> * 100 + 1 / 2\<rfloor> in
           (if q < 0 then ''-'' else []) @ rev (group3 (rev (string_of_nat (c div 100))))
           @ ''.'' @ padStart 2 (CHR ''0'') (string_of_nat (c mod 100))))"

definition hex_digit :: "nat \<Rightarrow> char" where
  "hex_digit n = (if n < 10 then digit_char n else char_of (55 + n))"

definition uri_unreserved :: "char \<Rightarrow> bool" where
  "uri_unreserved c =
     (let n = of_char c :: nat in
      (65 \<le> n \<and> n \<le> 90) \<or> (97 \<le> n \<and> n \<le> 122) \<or> (48 \<le> n \<and> n \<le> 57)
      \<or> c \<in> set ''-_.!~*()'' \<or> c = CHR 0x27)"

definition encodeURIComponent :: "string \<Rightarrow> string" where
  "encodeURIComponent s =
     concat (map (\<lambda>c. if uri_unreserved c then [c]
                       else [CHR ''%'', hex_digit (of_char c div 16), hex_digit (of_char c mod 16)]) s)"

subsection \<open>Dates\<close>

text \<open>
  A \<^verbatim>\<open>Date\<close> object, by the methods the program calls on it:
  \<^verbatim>\<open>getFullYear()\<close> and \<^verbatim>\<open>getMonth()\<close> read the instant in the
  local time zone (the month counted from 0), \<^verbatim>\<open>toISOString()\<close> renders it in
  UTC. How the three relate is the platform's: the time zone of the session.
\<close>

record jsdate =
  getFullYear :: int
  getMonth :: nat
  toISOString :: string

section \<open>The program\<close>

definition STORAGE_KEY :: string where
  "STORAGE_KEY = ''my_expenses_v1''"

definition LAST_SENT_KEY :: string where
  "LAST_SENT_KEY = ''my_expenses_last_sent_month''"

definition ADMIN_PHONE :: string where
  "ADMIN_PHONE = ''972545317545''"

text \<open>The three fixed Hebrew texts of the summary, as their UTF-8 bytes: the prefix
  constant, the label before the total (it ends in a colon and a space) and the closing
  line (in parentheses).\<close>

definition FIXED_WHATSAPP_MESSAGE_PREFIX :: string where
  "FIXED_WHATSAPP_MESSAGE_PREFIX =
     [CHR 0xD7, CHR 0xA1, CHR 0xD7, CHR 0x99, CHR 0xD7, CHR 0x9B, CHR 0xD7, CHR 0x95, CHR 0xD7,
      CHR 0x9D, CHR 0x20, CHR 0xD7, CHR 0x94, CHR 0xD7, CHR 0x95, CHR 0xD7, CHR 0xA6, CHR 0xD7,
      CHR 0x90, CHR 0xD7, CHR 0x95, CHR 0xD7, CHR 0xAA, CHR 0x20, CHR 0xD7, CHR 0x9C, CHR 0xD7,
      CHR 0x97, CHR 0xD7, CHR 0x95, CHR 0xD7, CHR 0x93, CHR 0xD7, CHR 0xA9]"

definition TOTAL_LABEL :: string where
  "TOTAL_LABEL =
     [CHR 0xD7, CHR 0xA1, CHR 0xD7, CHR 0x94, CHR 0x22, CHR 0xD7, CHR 0x9B, CHR 0x20, CHR 0xD7,
      CHR 0x94, CHR 0xD7, CHR 0x95, CHR 0xD7, CHR 0xA6, CHR 0xD7, CHR 0x90, CHR 0xD7, CHR 0x95,
      CHR 0xD7, CHR 0xAA, CHR 0x3A, CHR 0x20]"

definition SENT_LABEL :: string where
  "SENT_LABEL =
     [CHR 0x28, CHR 0xD7, CHR 0xA0, CHR 0xD7, CHR 0xA9, CHR 0xD7, CHR 0x9C, CHR 0xD7, CHR 0x97,
      CHR 0x20, CHR 0xD7, CHR 0x9E, CHR 0xD7, CHR 0x94, CHR 0xD7, CHR 0x90, CHR 0xD7, CHR 0xAA,
      CHR 0xD7, CHR 0xA8, CHR 0x29]"

text \<open>
  The effects a handler has on the world outside the component, in the order of the
  calls: \<^verbatim>\<open>alert\<close>, \<^verbatim>\<open>console.error\<close>, \<^verbatim>\<open>window.open(url, target)\<close>
  and \<^verbatim>\<open>localStorage.setItem(key, value)\<close>.
\<close>

datatype effect =
    Alert
  | ConsoleError
  | WindowOpen string string
  | SetItem string string

subsection \<open>The ledger store\<close>

text \<open>\<^verbatim>\<open>localStorage\<close>: a key absent from it reads as \<^verbatim>\<open>null\<close>.\<close>

type_synonym storage = "string \<Rightarrow> string option"

text \<open>The body of the \<^verbatim>\<open>try\<close> block of \<^verbatim>\<open>loadExpenses\<close>:
  \<^verbatim>\<open>!raw\<close> holds of \<^verbatim>\<open>null\<close> and of the empty string.\<close>

definition loadExpenses_try :: "storage \<Rightarrow> error + jsval" where
  "loadExpenses_try store =
     (case store STORAGE_KEY of
        None \<Rightarrow> Inr (JArr [])
      | Some raw \<Rightarrow> if raw = [] then Inr (JArr []) else JSON_parse raw)"

text \<open>\<^verbatim>\<open>loadExpenses\<close>: what the call gives (a value, or an exception that leaves
  it) and the effects it has. The \<^verbatim>\<open>catch\<close> clause logs and returns an empty array.\<close>

definition loadExpenses :: "storage \<Rightarrow> (error + jsval) \<times> effect list" where
  "loadExpenses store =
     (case loadExpenses_try store of
        Inl e \<Rightarrow> (Inr (JArr []), [ConsoleError])
      | Inr v \<Rightarrow> (Inr v, []))"

subsection \<open>The month key\<close>

definition monthKeyFromDate :: "jsdate \<Rightarrow> string" where
  "monthKeyFromDate d =
     (let y = getFullYear d;
          m = padStart 2 (CHR ''0'') (string_of_nat (getMonth d + 1))
      in string_of_int y @ ''-'' @ m)"

definition formatCurrency :: "jsval \<Rightarrow> error + string" where
  "formatCurrency n =
     (case to_number n of
        Inl e \<Rightarrow> Inl e
      | Inr x \<Rightarrow> Inr (toLocaleString_en_US_2 x))"

subsection \<open>The component\<close>

text \<open>
  The component's state (the six \<^verbatim>\<open>useState\<close> cells), \<^verbatim>\<open>localStorage\<close>,
  and the effects so far. The component renders only while \<^verbatim>\<open>expenses\<close> is an
  array (rendering calls \<^verbatim>\<open>expenses.filter\<close>), so the cell holds a list.
  \<open>expenses_set\<close> records that \<^verbatim>\<open>setExpenses\<close> was called since the last
  render: the effect that persists the ledger runs exactly then.
\<close>

record state =
  expenses :: "jsval list"
  amount :: string
  reason :: string
  notes_st :: string
  selectedMonth :: string
  showMonthlyReminder :: bool
  expenses_set :: bool
  localStorage :: storage
  effects :: "effect list"

definition getItem :: "state \<Rightarrow> string \<Rightarrow> string option" where
  "getItem s k = localStorage s k"

definition setItem :: "string \<Rightarrow> string \<Rightarrow> state \<Rightarrow> state" where
  "setItem k v s = s\<lparr>localStorage := (localStorage s)(k \<mapsto> v), effects := effects s @ [SetItem k v]\<rparr>"

text \<open>\<^verbatim>\<open>saveExpenses\<close>, and the effect that calls it whenever \<^verbatim>\<open>expenses\<close>
  was set. \<^verbatim>\<open>JSON.stringify\<close> is the platform's: the parameter \<open>stringify\<close>.\<close>

definition saveExpenses :: "(jsval \<Rightarrow> string) \<Rightarrow> jsval list \<Rightarrow> state \<Rightarrow> state" where
  "saveExpenses stringify xs s = setItem STORAGE_KEY (stringify (JArr xs)) s"

definition persistEffect :: "(jsval \<Rightarrow> string) \<Rightarrow> state \<Rightarrow> state" where
  "persistEffect stringify s =
     (if expenses_set s then (saveExpenses stringify (expenses s) s)\<lparr>expenses_set := False\<rparr> else s)"

text \<open>
  The rollover effect (\<^verbatim>\<open>useEffect(..., [])\<close>, lines 57 to 68), run once when a
  session starts at the date \<open>now\<close>. \<^verbatim>\<open>lastSent && lastSent !== nowMonth\<close>: a
  \<^verbatim>\<open>null\<close> and an empty string are falsy.
\<close>

definition rolloverCheck :: "jsdate \<Rightarrow> state \<Rightarrow> state" where
  "rolloverCheck now s =
     (let lastSent = getItem s LAST_SENT_KEY;
          nowMonth = monthKeyFromDate now;
          s1 = (case lastSent of
                  None \<Rightarrow> s\<lparr>showMonthlyReminder := False\<rparr>
                | Some l \<Rightarrow>
                    if l \<noteq> [] \<and> l \<noteq> nowMonth then s\<lparr>showMonthlyReminder := True\<rparr>
                    else s\<lparr>showMonthlyReminder := False\<rparr>)
      in s1\<lparr>selectedMonth := nowMonth\<rparr>)"

text \<open>
  A session start: the first render with the loaded ledger, then the two effects in
  the order of the source. A loaded value that is not an array makes the first render
  throw (\<^verbatim>\<open>expenses.filter\<close> is not a function).
\<close>

definition startSession :: "(jsval \<Rightarrow> string) \<Rightarrow> jsdate \<Rightarrow> storage \<Rightarrow> error + state" where
  "startSession stringify now store =
     (case loadExpenses store of
        (Inl e, _) \<Rightarrow> Inl e
      | (Inr (JArr xs), l) \<Rightarrow>
          Inr (rolloverCheck now (persistEffect stringify
                 \<lparr>expenses = xs, amount = [], reason = [], notes_st = [],
                  selectedMonth = monthKeyFromDate now, showMonthlyReminder = False,
                  expenses_set = True, localStorage = store, effects = l\<rparr>))
      | (Inr _, _) \<Rightarrow> Inl TypeError)"

text \<open>
  \<^verbatim>\<open>addExpense\<close>, at the date \<open>now\<close>; \<open>ms\<close> is \<^verbatim>\<open>Date.now()\<close> and
  \<open>rnd\<close> is the text \<^verbatim>\<open>Math.random().toString(36)\<close>.
\<close>

definition addExpense :: "jsdate \<Rightarrow> nat \<Rightarrow> string \<Rightarrow> state \<Rightarrow> state" where
  "addExpense now ms rnd s =
     (let amt = string_to_number (amount s) in
      if \<not> truthy (JNum amt) \<or> trim (reason s) = [] then s\<lparr>effects := effects s @ [Alert]\<rparr>
      else
        let item = JObj [(''id'', JStr (string_of_nat ms @ ''-'' @ take 6 (drop 2 rnd))),
                         (''amount'', JNum amt),
                         (''reason'', JStr (trim (reason s))),
                         (''notes'', JStr (trim (notes_st s))),
                         (''dateISO'', JStr (toISOString now))];
            next = item # expenses s
        in s\<lparr>expenses := next, expenses_set := True, amount := [], reason := [], notes_st := [],
             selectedMonth := monthKeyFromDate now\<rparr>)"

text \<open>\<^verbatim>\<open>removeExpense\<close>; \<open>confirmed\<close> is the answer to the \<^verbatim>\<open>confirm\<close>
  dialog. Reading \<^verbatim>\<open>x.id\<close> throws on an entry that is \<^verbatim>\<open>null\<close>.\<close>

definition removeExpense :: "bool \<Rightarrow> jsval \<Rightarrow> state \<Rightarrow> state \<times> error option" where
  "removeExpense confirmed ident s =
     (if \<not> confirmed then (s, None)
      else (case filter_err (\<lambda>x. case get_prop x ''id'' of
                                    Inl e \<Rightarrow> Inl e
                                  | Inr v \<Rightarrow> Inr (\<not> strict_equals v ident)) (expenses s) of
              Inl e \<Rightarrow> (s, Some e)
            | Inr xs \<Rightarrow> (s\<lparr>expenses := xs, expenses_set := True\<rparr>, None)))"

text \<open>An entry whose \<^verbatim>\<open>id\<close> can be read and strictly equals \<open>ident\<close>.\<close>

definition has_id :: "jsval \<Rightarrow> jsval \<Rightarrow> bool" where
  "has_id ident x = (case get_prop x ''id'' of Inl e \<Rightarrow> False | Inr v \<Rightarrow> strict_equals v ident)"

text \<open>\<^verbatim>\<open>x.dateISO.startsWith(monthKey)\<close>: only a string has the method.\<close>

definition dateISO_startsWith :: "string \<Rightarrow> jsval \<Rightarrow> error + bool" where
  "dateISO_startsWith monthKey x =
     (case get_prop x ''dateISO'' of
        Inl e \<Rightarrow> Inl e
      | Inr (JStr d) \<Rightarrow> Inr (prefix monthKey d)
      | Inr _ \<Rightarrow> Inl TypeError)"

definition expensesForMonth :: "state \<Rightarrow> string \<Rightarrow> error + jsval list" where
  "expensesForMonth s monthKey = filter_err (dateISO_startsWith monthKey) (expenses s)"

text \<open>\<^verbatim>\<open>Number(it.amount || 0)\<close>.\<close>

definition amount_number :: "jsval \<Rightarrow> error + jsnum" where
  "amount_number it =
     (case get_prop it ''amount'' of
        Inl e \<Rightarrow> Inl e
      | Inr a \<Rightarrow> to_number (if truthy a then a else JNum (Fin 0)))"

text \<open>The \<^verbatim>\<open>reduce\<close> of \<^verbatim>\<open>totalForMonth\<close>, from the accumulator \<open>acc\<close>:
  each step adds \<^verbatim>\<open>Number(it.amount || 0)\<close>.\<close>

fun reduce_amounts :: "jsnum \<Rightarrow> jsval list \<Rightarrow> error + jsnum" where
  "reduce_amounts acc [] = Inr acc"
| "reduce_amounts acc (it # arr) =
     (case amount_number it of
        Inl e \<Rightarrow> Inl e
      | Inr n \<Rightarrow> reduce_amounts (js_add acc n) arr)"

definition totalForMonth :: "state \<Rightarrow> string \<Rightarrow> error + jsnum" where
  "totalForMonth s monthKey =
     (case expensesForMonth s monthKey of
        Inl e \<Rightarrow> Inl e
      | Inr arr \<Rightarrow> reduce_amounts (Fin 0) arr)"

text \<open>
  The text \<^verbatim>\<open>body\<close> of \<^verbatim>\<open>handleSendMonthly\<close> (lines 112 to 114) for the
  month \<open>m\<close> and the total \<open>tot\<close>: \<^verbatim>\<open>[yr, mon] = m.split("-")\<close>, a missing part
  printing as \<^verbatim>\<open>undefined\<close>.
\<close>

definition summary_body :: "string \<Rightarrow> jsnum \<Rightarrow> error + string" where
  "summary_body m tot =
     (let parts = split_on (CHR ''-'') m;
          yr = (case parts of y # _ \<Rightarrow> y | [] \<Rightarrow> ''undefined'');
          mon = (case parts of _ # mo # _ \<Rightarrow> mo | _ \<Rightarrow> ''undefined'');
          humanMonth = mon @ ''/'' @ yr
      in case formatCurrency (JNum tot) of
           Inl e \<Rightarrow> Inl e
         | Inr t \<Rightarrow>
             Inr (FIXED_WHATSAPP_MESSAGE_PREFIX @ '' '' @ humanMonth @ [CHR 0x0A]
                  @ TOTAL_LABEL @ t @ [CHR 0x0A] @ SENT_LABEL))"

text \<open>
  \<^verbatim>\<open>handleSendMonthly\<close>, at the date \<open>now\<close>. \<open>window_open\<close> is the platform's
  \<^verbatim>\<open>window.open\<close>: \<open>Inl e\<close> when the call throws \<open>e\<close>, \<open>Inr w\<close> when it
  returns \<open>w\<close> (a window, or \<^verbatim>\<open>null\<close> when the browser blocks the popup); the
  program does not read what the call returns. \<open>monthToSend\<close> is
  \<open>None\<close> for a missing argument; \<^verbatim>\<open>monthToSend || selectedMonth\<close>.
\<close>

definition handleSendMonthly ::
  "(string \<Rightarrow> string \<Rightarrow> error + jsval) \<Rightarrow> jsdate \<Rightarrow> string option \<Rightarrow> state \<Rightarrow> state \<times> error option" where
  "handleSendMonthly window_open now monthToSend s =
     (let m = (case monthToSend of
                 None \<Rightarrow> selectedMonth s
               | Some x \<Rightarrow> if x \<noteq> [] then x else selectedMonth s)
      in case totalForMonth s m of
           Inl e \<Rightarrow> (s, Some e)
         | Inr tot \<Rightarrow>
             (case summary_body m tot of
                Inl e \<Rightarrow> (s, Some e)
              | Inr body \<Rightarrow>
                  (let encoded = encodeURIComponent body;
                       url = ''https://wa.me/'' @ ADMIN_PHONE @ ''?text='' @ encoded;
                       s1 = s\<lparr>effects := effects s @ [WindowOpen url ''_blank'']\<rparr>
                   in case window_open url ''_blank'' of
                        Inl e \<Rightarrow> (s1, Some e)
                      | Inr w \<Rightarrow>
                          (let s2 = setItem LAST_SENT_KEY (monthKeyFromDate now) s1;
                               s3 = s2\<lparr>showMonthlyReminder := False\<rparr>
                           in (s3\<lparr>effects := effects s3 @ [Alert]\<rparr>, None)))))"

text \<open>The handler of the dismiss button (lines 169 to 172).\<close>

definition dismissReminder :: "state \<Rightarrow> state" where
  "dismissReminder s = s\<lparr>showMonthlyReminder := False\<rparr>"

subsection \<open>Sessions\<close>

text \<open>
  What can happen to the component and the store, one event after the other: a session
  starts (the page loads; a start whose first render throws leaves no component and
  changes nothing), the user edits the draft fields, selects a month, adds or removes
  an expense (the persisting effect runs after each), dismisses the reminder, or sends
  a summary. \<open>run stringify sends s s'\<close>: the state \<open>s'\<close> is reached from \<open>s\<close>
  by such events, every send that went through having happened at a date allowed by
  \<open>sends\<close>.
\<close>

inductive run :: "(jsval \<Rightarrow> string) \<Rightarrow> (jsdate \<Rightarrow> bool) \<Rightarrow> state \<Rightarrow> state \<Rightarrow> bool"
  for stringify :: "jsval \<Rightarrow> string" and sends :: "jsdate \<Rightarrow> bool" and s :: state
where
  run_here: "run stringify sends s s"
| run_start:
    "run stringify sends s s1 \<Longrightarrow> startSession stringify now (localStorage s1) = Inr s2
     \<Longrightarrow> run stringify sends s s2"
| run_draft:
    "run stringify sends s s1 \<Longrightarrow> run stringify sends s (s1\<lparr>amount := a, reason := r, notes_st := n\<rparr>)"
| run_select:
    "run stringify sends s s1 \<Longrightarrow> run stringify sends s (s1\<lparr>selectedMonth := m\<rparr>)"
| run_add:
    "run stringify sends s s1 \<Longrightarrow> run stringify sends s (persistEffect stringify (addExpense now ms rnd s1))"
| run_remove:
    "run stringify sends s s1
     \<Longrightarrow> run stringify sends s (persistEffect stringify (fst (removeExpense confirmed ident s1)))"
| run_dismiss:
    "run stringify sends s s1 \<Longrightarrow> run stringify sends s (dismissReminder s1)"
| run_send_failed:
    "run stringify sends s s1 \<Longrightarrow> handleSendMonthly window_open now monthToSend s1 = (s2, Some e)
     \<Longrightarrow> run stringify sends s s2"
| run_send:
    "run stringify sends s s1 \<Longrightarrow> sends now
     \<Longrightarrow> handleSendMonthly window_open now monthToSend s1 = (s2, None)
     \<Longrightarrow> run stringify sends s s2"

section \<open>Concrete inputs\<close>

text \<open>A state with an empty ledger whose store holds only the given last-sent marker,
  and two dates: one in August 2025, one in September 2025.\<close>

definition marker_state :: "string option \<Rightarrow> state" where
  "marker_state marker =
     \<lparr>expenses = [], amount = [], reason = [], notes_st = [], selectedMonth = [],
      showMonthlyReminder = False, expenses_set = False,
      localStorage = (\<lambda>k. if k = LAST_SENT_KEY then marker else None), effects = []\<rparr>"

definition date_aug_2025 :: jsdate where
  "date_aug_2025 = \<lparr>getFullYear = 2025, getMonth = 7, toISOString = ''2025-08-15T10:00:00.000Z''\<rparr>"

definition date_sep_2025 :: jsdate where
  "date_sep_2025 = \<lparr>getFullYear = 2025, getMonth = 8, toISOString = ''2025-09-02T10:00:00.000Z''\<rparr>"

text \<open>The platform's \<^verbatim>\<open>window.open\<close> when it opens a window, when the
  browser blocks the popup, and when it is not available; a serializer; and the state of
  a session started in September 2025 over a store whose marker is August 2025.\<close>

definition open_ok :: "string \<Rightarrow> string \<Rightarrow> error + jsval" where
  "open_ok url target = Inr (JObj [])"



definition no_stringify :: "jsval \<Rightarrow> string" where
  "no_stringify v = []"

definition pending_state :: state where
  "pending_state = rolloverCheck date_sep_2025 (marker_state (Some ''2025-08''))"






text \<open>
  A date in a time zone three hours ahead of UTC: half past midnight on 1 September 2025
  there, 21:30 on 31 August in UTC. A state with a filled draft and an empty ledger. The
  entries that \<^verbatim>\<open>addExpense\<close> makes at that date, at the clock value
  1756675800000 with the random text \<^verbatim>\<open>0.k3x9ab7\<close>, of the drafts (12.5, taxi)
  and (-5, refund). A ledger of three entries, two of them with the id \<^verbatim>\<open>a\<close>.
\<close>

definition date_sep_1_local :: jsdate where
  "date_sep_1_local = \<lparr>getFullYear = 2025, getMonth = 8, toISOString = ''2025-08-31T21:30:00.000Z''\<rparr>"

definition draft_state :: "string \<Rightarrow> string \<Rightarrow> state" where
  "draft_state a r = (marker_state None)\<lparr>amount := a, reason := r\<rparr>"

definition taxi_entry :: jsval where
  "taxi_entry =
     JObj [(''id'', JStr ''1756675800000-k3x9ab''), (''amount'', JNum (Fin (25 / 2))),
           (''reason'', JStr ''taxi''), (''notes'', JStr []),
           (''dateISO'', JStr ''2025-08-31T21:30:00.000Z'')]"


definition entry_a :: jsval where
  "entry_a = JObj [(''id'', JStr ''a''), (''amount'', JNum (Fin 3)), (''dateISO'', JStr ''2025-08-15T10:00:00.000Z'')]"

definition entry_b :: jsval where
  "entry_b = JObj [(''id'', JStr ''b''), (''amount'', JNum (Fin 4)), (''dateISO'', JStr ''2025-08-16T10:00:00.000Z'')]"

definition ledger_a_b_a :: state where
  "ledger_a_b_a = (marker_state None)\<lparr>expenses := [entry_a, entry_b, entry_a]\<rparr>"

section \<open>Properties\<close>

subsection \<open>The rollover detector\<close>

lemma monthKeyFromDate_not_empty: "monthKeyFromDate d \<noteq> []"
  by (simp add: monthKeyFromDate_def Let_def)

lemma monthKey_aug_2025: "monthKeyFromDate date_aug_2025 = ''2025-08''"
  by code_simp

lemma monthKey_sep_2025: "monthKeyFromDate date_sep_2025 = ''2025-09''"
  by code_simp

text \<open>The flag after the rollover effect, for every content of the store: a marker that
  is the empty string counts as no marker.\<close>

lemma rollover_flag:
  "showMonthlyReminder (rolloverCheck now s) =
     (case getItem s LAST_SENT_KEY of
        None \<Rightarrow> False
      | Some l \<Rightarrow> l \<noteq> [] \<and> l \<noteq> monthKeyFromDate now)"
  by (simp add: rolloverCheck_def Let_def split: option.splits)

text \<open>
  C1. At a session start the detector leaves the reminder off when the store has no
  last-sent marker, leaves it off when the marker is the month key of the current date,
  and, for a marker that is the month key of any date \<open>d\<close>, turns it on exactly when
  that key differs from the month key of the current date.
\<close>

theorem rollover_detector:
  "(getItem s LAST_SENT_KEY = None \<longrightarrow> \<not> showMonthlyReminder (rolloverCheck now s))
   \<and> (getItem s LAST_SENT_KEY = Some (monthKeyFromDate now) \<longrightarrow>
        \<not> showMonthlyReminder (rolloverCheck now s))
   \<and> (getItem s LAST_SENT_KEY = Some (monthKeyFromDate d) \<longrightarrow>
        (showMonthlyReminder (rolloverCheck now s)
         \<longleftrightarrow> monthKeyFromDate d \<noteq> monthKeyFromDate now))"
  by (simp add: rollover_flag monthKeyFromDate_not_empty)

theorem rollover_detector_witness:
  "\<not> showMonthlyReminder (rolloverCheck date_sep_2025 (marker_state None))
   \<and> \<not> showMonthlyReminder (rolloverCheck date_sep_2025 (marker_state (Some ''2025-09'')))
   \<and> showMonthlyReminder (rolloverCheck date_sep_2025 (marker_state (Some ''2025-08'')))"
  using rollover_detector [of "marker_state None" date_sep_2025 date_aug_2025]
        rollover_detector [of "marker_state (Some ''2025-09'')" date_sep_2025 date_aug_2025]
        rollover_detector [of "marker_state (Some ''2025-08'')" date_sep_2025 date_aug_2025]
  by (simp add: getItem_def marker_state_def monthKey_aug_2025 monthKey_sep_2025)

subsection \<open>The marker is written by a send only\<close>

lemma keys_differ: "STORAGE_KEY \<noteq> LAST_SENT_KEY"
  by (simp add: STORAGE_KEY_def LAST_SENT_KEY_def)

lemma marker_saveExpenses: "getItem (saveExpenses f xs s) LAST_SENT_KEY = getItem s LAST_SENT_KEY"
  using keys_differ by (simp add: saveExpenses_def setItem_def getItem_def)

lemma marker_persistEffect: "getItem (persistEffect f s) LAST_SENT_KEY = getItem s LAST_SENT_KEY"
  using marker_saveExpenses [of f "expenses s" s] by (simp add: persistEffect_def getItem_def)

lemma marker_addExpense: "getItem (addExpense now ms rnd s) LAST_SENT_KEY = getItem s LAST_SENT_KEY"
  by (simp add: addExpense_def getItem_def Let_def)

lemma marker_removeExpense:
  "getItem (fst (removeExpense c i s)) LAST_SENT_KEY = getItem s LAST_SENT_KEY"
  by (simp add: removeExpense_def getItem_def split: sum.splits)

lemma marker_dismissReminder: "getItem (dismissReminder s) LAST_SENT_KEY = getItem s LAST_SENT_KEY"
  by (simp add: dismissReminder_def getItem_def)

lemma marker_rolloverCheck: "getItem (rolloverCheck now s) LAST_SENT_KEY = getItem s LAST_SENT_KEY"
  by (simp add: rolloverCheck_def getItem_def Let_def split: option.splits)

lemma marker_startSession:
  assumes "startSession f now store = Inr s"
  shows "getItem s LAST_SENT_KEY = store LAST_SENT_KEY"
proof -
  obtain xs l where s: "s = rolloverCheck now (persistEffect f
       \<lparr>expenses = xs, amount = [], reason = [], notes_st = [],
        selectedMonth = monthKeyFromDate now, showMonthlyReminder = False,
        expenses_set = True, localStorage = store, effects = l\<rparr>)"
    using assms by (auto simp: startSession_def split: prod.splits sum.splits jsval.splits)
  show ?thesis
    by (simp add: s marker_rolloverCheck marker_persistEffect) (simp add: getItem_def)
qed

lemma handleSendMonthly_cases:
  "handleSendMonthly wo now mts s = (s1, r) \<Longrightarrow>
     (r \<noteq> None \<and> localStorage s1 = localStorage s \<and> showMonthlyReminder s1 = showMonthlyReminder s
        \<and> (effects s1 = effects s \<or> (\<exists>url e. effects s1 = effects s @ [WindowOpen url ''_blank'']
                       \<and> wo url ''_blank'' = Inl e \<and> r = Some e)))
   \<or> (r = None \<and> localStorage s1 = (localStorage s)(LAST_SENT_KEY \<mapsto> monthKeyFromDate now)
        \<and> \<not> showMonthlyReminder s1
        \<and> (\<exists>url w. wo url ''_blank'' = Inr w
               \<and> effects s1 = effects s @ [WindowOpen url ''_blank'',
                     SetItem LAST_SENT_KEY (monthKeyFromDate now), Alert]))"
  by (auto simp: handleSendMonthly_def Let_def setItem_def split: sum.splits option.splits if_splits)

lemma monthKeyFromDate_cong:
  "getFullYear d = getFullYear d' \<Longrightarrow> getMonth d = getMonth d' \<Longrightarrow> monthKeyFromDate d = monthKeyFromDate d'"
  by (simp add: monthKeyFromDate_def)

lemma run_marker:
  "run f sends s s' \<Longrightarrow>
     getItem s' LAST_SENT_KEY = getItem s LAST_SENT_KEY
     \<or> (\<exists>d. sends d \<and> getItem s' LAST_SENT_KEY = Some (monthKeyFromDate d))"
proof (induction rule: run.induct)
  case run_here
  show ?case by simp
next
  case (run_start s1 now s2)
  then show ?case using marker_startSession [of f now "localStorage s1" s2]
    by (simp add: getItem_def)
next
  case (run_draft s1 a r n)
  then show ?case by (simp add: getItem_def)
next
  case (run_select s1 m)
  then show ?case by (simp add: getItem_def)
next
  case (run_add s1 now ms rnd)
  then show ?case by (simp add: marker_persistEffect marker_addExpense)
next
  case (run_remove s1 confirmed ident)
  then show ?case by (simp add: marker_persistEffect marker_removeExpense)
next
  case (run_dismiss s1)
  then show ?case by (simp add: marker_dismissReminder)
next
  case (run_send_failed s1 window_open now monthToSend s2 e)
  from handleSendMonthly_cases [OF run_send_failed.hyps(2)]
  have "localStorage s2 = localStorage s1" by auto
  with run_send_failed.IH show ?case by (simp add: getItem_def)
next
  case (run_send s1 now window_open monthToSend s2)
  from handleSendMonthly_cases [OF run_send.hyps(3)]
  have "getItem s2 LAST_SENT_KEY = Some (monthKeyFromDate now)" by (auto simp: getItem_def)
  with run_send.hyps(2) show ?case by blast
qed

lemma startSession_flag:
  assumes "startSession f now store = Inr s"
  shows "showMonthlyReminder s =
     (case store LAST_SENT_KEY of None \<Rightarrow> False | Some l \<Rightarrow> l \<noteq> [] \<and> l \<noteq> monthKeyFromDate now)"
proof -
  obtain xs l where s: "s = rolloverCheck now (persistEffect f
       \<lparr>expenses = xs, amount = [], reason = [], notes_st = [],
        selectedMonth = monthKeyFromDate now, showMonthlyReminder = False,
        expenses_set = True, localStorage = store, effects = l\<rparr>)"
    using assms by (auto simp: startSession_def split: prod.splits sum.splits jsval.splits)
  show ?thesis
    by (simp add: s rollover_flag marker_persistEffect) (simp add: getItem_def)
qed

lemma totalForMonth_empty: "expenses s = [] \<Longrightarrow> totalForMonth s m = Inr (Fin 0)"
  by (simp add: totalForMonth_def expensesForMonth_def)

lemma formatCurrency_number: "formatCurrency (JNum n) = Inr (toLocaleString_en_US_2 n)"
  by (simp add: formatCurrency_def to_number_def)

lemma handleSendMonthly_returns:
  "totalForMonth s (case mts of None \<Rightarrow> selectedMonth s | Some x \<Rightarrow> if x \<noteq> [] then x else selectedMonth s) = Inr t
   \<Longrightarrow> (\<And>url. \<exists>w. wo url ''_blank'' = Inr w)
   \<Longrightarrow> snd (handleSendMonthly wo now mts s) = None"
proof -
  assume tot: "totalForMonth s (case mts of None \<Rightarrow> selectedMonth s
                 | Some x \<Rightarrow> if x \<noteq> [] then x else selectedMonth s) = Inr t"
    and opens: "\<And>url. \<exists>w. wo url ''_blank'' = Inr w"
  let ?m = "case mts of None \<Rightarrow> selectedMonth s
                 | Some x \<Rightarrow> if x \<noteq> [] then x else selectedMonth s"
  have "\<exists>body. summary_body ?m t = Inr body"
    by (simp add: summary_body_def formatCurrency_number Let_def)
  then obtain body where body: "summary_body ?m t = Inr body" ..
  obtain w where "wo (''https://wa.me/'' @ ADMIN_PHONE @ ''?text='' @ encodeURIComponent body)
                    ''_blank'' = Inr w"
    using opens by blast
  with tot body show ?thesis
    by (simp add: handleSendMonthly_def Let_def)
qed

lemma pending_state_expenses: "expenses pending_state = []"
  by (simp add: pending_state_def rolloverCheck_def marker_state_def Let_def getItem_def)

lemma pending_state_marker: "getItem pending_state LAST_SENT_KEY = Some ''2025-08''"
  by (simp add: pending_state_def marker_rolloverCheck) (simp add: getItem_def marker_state_def)


subsection \<open>Dispatch\<close>

text \<open>
  C2. Whatever month is dispatched (the argument, or else the selected month), a
  dispatch that goes through leaves the marker at the month key of the current date and
  the reminder off; and from then on, whatever happens (sessions starting, expenses added
  and removed, further sends in the same calendar month), every session start at a date
  of that calendar month leaves the reminder off.
\<close>

theorem dispatch_marks_current_month:
  "handleSendMonthly window_open now monthToSend s = (s1, None) \<longrightarrow>
     getItem s1 LAST_SENT_KEY = Some (monthKeyFromDate now)
     \<and> \<not> showMonthlyReminder s1
     \<and> (\<forall>s2 now'. run stringify (\<lambda>d. getFullYear d = getFullYear now \<and> getMonth d = getMonth now) s1 s2
            \<and> getFullYear now' = getFullYear now \<and> getMonth now' = getMonth now
          \<longrightarrow> \<not> showMonthlyReminder (rolloverCheck now' s2)
              \<and> (\<forall>s3. startSession stringify now' (localStorage s2) = Inr s3 \<longrightarrow> \<not> showMonthlyReminder s3))"
proof (intro impI conjI allI)
  assume send: "handleSendMonthly window_open now monthToSend s = (s1, None)"
  from handleSendMonthly_cases [OF send]
  show marker: "getItem s1 LAST_SENT_KEY = Some (monthKeyFromDate now)"
    and "\<not> showMonthlyReminder s1"
    by (auto simp: getItem_def)
  fix s2 and now' :: jsdate
  assume later: "run stringify (\<lambda>d. getFullYear d = getFullYear now \<and> getMonth d = getMonth now) s1 s2
            \<and> getFullYear now' = getFullYear now \<and> getMonth now' = getMonth now"
  then have key: "monthKeyFromDate now' = monthKeyFromDate now"
    using monthKeyFromDate_cong [of now' now] by simp
  from later have "run stringify (\<lambda>d. getFullYear d = getFullYear now \<and> getMonth d = getMonth now) s1 s2"
    by simp
  from run_marker [OF this]
  have "getItem s2 LAST_SENT_KEY = Some (monthKeyFromDate now)"
  proof
    assume "getItem s2 LAST_SENT_KEY = getItem s1 LAST_SENT_KEY"
    with marker show ?thesis by simp
  next
    assume "\<exists>d. (getFullYear d = getFullYear now \<and> getMonth d = getMonth now)
                \<and> getItem s2 LAST_SENT_KEY = Some (monthKeyFromDate d)"
    then obtain d where "getFullYear d = getFullYear now" "getMonth d = getMonth now"
      "getItem s2 LAST_SENT_KEY = Some (monthKeyFromDate d)" by blast
    then show ?thesis using monthKeyFromDate_cong [of d now] by simp
  qed
  then show "\<not> showMonthlyReminder (rolloverCheck now' s2)"
    by (simp add: rollover_flag key)
  fix s3
  assume "startSession stringify now' (localStorage s2) = Inr s3"
  from startSession_flag [OF this] \<open>getItem s2 LAST_SENT_KEY = Some (monthKeyFromDate now)\<close>
  show "\<not> showMonthlyReminder s3"
    by (simp add: getItem_def key)
qed

theorem dispatch_marks_current_month_witness:
  "getItem (fst (handleSendMonthly open_ok date_sep_2025 (Some ''2025-08'') pending_state)) LAST_SENT_KEY
     = Some ''2025-09''
   \<and> \<not> showMonthlyReminder (fst (handleSendMonthly open_ok date_sep_2025 (Some ''2025-08'') pending_state))
   \<and> \<not> showMonthlyReminder (rolloverCheck date_sep_2025
          (dismissReminder (fst (handleSendMonthly open_ok date_sep_2025 (Some ''2025-08'') pending_state))))"
proof -
  let ?r = "handleSendMonthly open_ok date_sep_2025 (Some ''2025-08'') pending_state"
  have "snd ?r = None"
    by (rule handleSendMonthly_returns [where t = "Fin 0"])
       (simp_all add: totalForMonth_empty pending_state_expenses open_ok_def)
  then have sent: "?r = (fst ?r, None)"
    by (simp add: prod_eq_iff)
  have later: "run no_stringify (\<lambda>d. getFullYear d = getFullYear date_sep_2025 \<and> getMonth d = getMonth date_sep_2025)
           (fst ?r) (dismissReminder (fst ?r))"
    by (rule run_dismiss [OF run_here])
  from dispatch_marks_current_month [of open_ok date_sep_2025 "Some ''2025-08''" pending_state "fst ?r" no_stringify]
    sent later
  show ?thesis
    by (simp add: monthKey_sep_2025)
qed



subsection \<open>Dismissing the reminder\<close>

text \<open>
  C7. Dismissing turns the reminder off and leaves the store as it is. While no send
  goes through, whatever else happens, a session start at a date whose month key
  differs from the marker turns the reminder on again.
\<close>

theorem dismiss_is_session_only:
  "\<not> showMonthlyReminder (dismissReminder s)
   \<and> localStorage (dismissReminder s) = localStorage s
   \<and> (getItem s LAST_SENT_KEY = Some (monthKeyFromDate d)
        \<and> monthKeyFromDate d \<noteq> monthKeyFromDate now
        \<and> run stringify (\<lambda>d. False) (dismissReminder s) s2
      \<longrightarrow> showMonthlyReminder (rolloverCheck now s2)
          \<and> (\<forall>s3. startSession stringify now (localStorage s2) = Inr s3 \<longrightarrow> showMonthlyReminder s3))"
proof (intro conjI impI allI)
  show "\<not> showMonthlyReminder (dismissReminder s)"
    and "localStorage (dismissReminder s) = localStorage s"
    by (simp_all add: dismissReminder_def)
next
  assume a: "getItem s LAST_SENT_KEY = Some (monthKeyFromDate d)
        \<and> monthKeyFromDate d \<noteq> monthKeyFromDate now
        \<and> run stringify (\<lambda>d. False) (dismissReminder s) s2"
  then have "run stringify (\<lambda>d. False) (dismissReminder s) s2"
    by simp
  from run_marker [OF this] a
  have m: "getItem s2 LAST_SENT_KEY = Some (monthKeyFromDate d)"
    by (simp add: marker_dismissReminder)
  with a show "showMonthlyReminder (rolloverCheck now s2)"
    by (simp add: rollover_flag monthKeyFromDate_not_empty)
  fix s3
  assume "startSession stringify now (localStorage s2) = Inr s3"
  from startSession_flag [OF this] m a show "showMonthlyReminder s3"
    by (simp add: getItem_def monthKeyFromDate_not_empty)
qed

theorem dismiss_is_session_only_witness:
  "\<not> showMonthlyReminder (dismissReminder pending_state)
   \<and> showMonthlyReminder (rolloverCheck date_sep_2025 (dismissReminder pending_state))"
proof -
  have "run no_stringify (\<lambda>d. False) (dismissReminder pending_state) (dismissReminder pending_state)"
    by (rule run_here)
  with dismiss_is_session_only [of pending_state date_aug_2025 date_sep_2025 no_stringify
         "dismissReminder pending_state"] pending_state_marker
  show ?thesis
    by (simp add: monthKey_aug_2025 monthKey_sep_2025)
qed

subsection \<open>The summary text\<close>

lemma of_char_digit: "k < 10 \<Longrightarrow> (of_char (char_of (48 + k :: nat)) :: nat) = 48 + k"
  by simp























text \<open>The window that a dispatch opens carries the summary text of the dispatched
  month and its total, as a URI component.\<close>

lemma handleSendMonthly_opens_summary:
  assumes "handleSendMonthly wo now mts s = (s1, None)"
  shows "\<exists>tot body.
           totalForMonth s (case mts of None \<Rightarrow> selectedMonth s
                            | Some x \<Rightarrow> if x \<noteq> [] then x else selectedMonth s) = Inr tot
         \<and> summary_body (case mts of None \<Rightarrow> selectedMonth s
                          | Some x \<Rightarrow> if x \<noteq> [] then x else selectedMonth s) tot = Inr body
         \<and> WindowOpen (''https://wa.me/'' @ ADMIN_PHONE @ ''?text='' @ encodeURIComponent body)
              ''_blank'' \<in> set (effects s1)"
  using assms
  by (auto simp: handleSendMonthly_def Let_def setItem_def split: sum.splits)



subsection \<open>The monthly total\<close>









subsection \<open>Loading the ledger\<close>








subsection \<open>The entries of a month\<close>

lemma number_of_12_5: "string_to_number ''12.5'' = Fin (25 / 2)"
  by code_simp


lemma trim_taxi: "trim ''taxi'' = ''taxi''"
  by code_simp


lemma trim_empty: "trim [] = []"
  by (simp add: trim_def)

lemma id_text: "string_of_nat 1756675800000 @ ''-'' @ take 6 (drop 2 ''0.k3x9ab7'') = ''1756675800000-k3x9ab''"
  by (simp add: string_of_nat.simps digit_char_def char_of_eq_iff)

lemma monthKey_sep_1_local: "monthKeyFromDate date_sep_1_local = ''2025-09''"
  by code_simp

lemma add_taxi:
  "addExpense date_sep_1_local 1756675800000 ''0.k3x9ab7'' (draft_state ''12.5'' ''taxi'')
     = (marker_state None)\<lparr>expenses := [taxi_entry], expenses_set := True, selectedMonth := ''2025-09''\<rparr>"
  using id_text
  by (simp add: addExpense_def draft_state_def number_of_12_5 trim_taxi trim_empty Let_def
      monthKey_sep_1_local taxi_entry_def marker_state_def)
     (simp add: date_sep_1_local_def)

text \<open>
  C4 fails on the code. \<^verbatim>\<open>expensesForMonth\<close> tests whether the stored UTC text
  starts with the month key, while month keys come from the local year and month of a
  date. The expense added at half past midnight on 1 September 2025, three hours ahead
  of UTC, has the month key \<^verbatim>\<open>2025-09\<close> by its own year and month, and is stored
  as \<^verbatim>\<open>2025-08-31T21:30:00.000Z\<close>: September does not select it, August does.
\<close>

theorem prefix_match_misses_entry:
  "expenses (addExpense date_sep_1_local 1756675800000 ''0.k3x9ab7'' (draft_state ''12.5'' ''taxi''))
     = [taxi_entry]
   \<and> monthKeyFromDate date_sep_1_local = ''2025-09''
   \<and> expensesForMonth
        (addExpense date_sep_1_local 1756675800000 ''0.k3x9ab7'' (draft_state ''12.5'' ''taxi''))
        ''2025-09'' = Inr []
   \<and> expensesForMonth
        (addExpense date_sep_1_local 1756675800000 ''0.k3x9ab7'' (draft_state ''12.5'' ''taxi''))
        ''2025-08'' = Inr [taxi_entry]"
  by (simp add: add_taxi monthKey_sep_1_local expensesForMonth_def)
     (simp add: taxi_entry_def dateISO_startsWith_def get_prop_def)

text \<open>So the total of the selected month, right after the expense was added, is 0.\<close>

theorem prefix_match_misses_entry_witness:
  "totalForMonth
     (addExpense date_sep_1_local 1756675800000 ''0.k3x9ab7'' (draft_state ''12.5'' ''taxi''))
     ''2025-09'' = Inr (Fin 0)
   \<and> totalForMonth
     (addExpense date_sep_1_local 1756675800000 ''0.k3x9ab7'' (draft_state ''12.5'' ''taxi''))
     ''2025-08'' = Inr (Fin (25 / 2))"
proof -
  have "amount_number taxi_entry = Inr (Fin (25 / 2))"
    by (simp add: amount_number_def taxi_entry_def get_prop_def to_number_def)
  with prefix_match_misses_entry show ?thesis
    by (simp add: totalForMonth_def)
qed

subsection \<open>Adding an expense\<close>

lemma addExpense_rejects:
  "string_to_number (amount s) = Fin 0 \<or> string_to_number (amount s) = NaN \<or> trim (reason s) = []
   \<Longrightarrow> addExpense now ms rnd s = s\<lparr>effects := effects s @ [Alert]\<rparr>"
  by (auto simp: addExpense_def Let_def)

lemma addExpense_rejected_nothing_persisted:
  "string_to_number (amount s) = Fin 0 \<or> string_to_number (amount s) = NaN \<or> trim (reason s) = []
   \<Longrightarrow> \<not> expenses_set s
   \<Longrightarrow> expenses (persistEffect f (addExpense now ms rnd s)) = expenses s
       \<and> localStorage (persistEffect f (addExpense now ms rnd s)) = localStorage s"
  by (simp add: addExpense_rejects persistEffect_def)

lemma addExpense_accepts:
  "string_to_number (amount s) \<noteq> Fin 0 \<Longrightarrow> string_to_number (amount s) \<noteq> NaN \<Longrightarrow> trim (reason s) \<noteq> []
   \<Longrightarrow> length (expenses (addExpense now ms rnd s)) = Suc (length (expenses s))"
  by (simp add: addExpense_def Let_def)



subsection \<open>Removing an expense\<close>

lemma filter_err_Inr:
  "filter_err p xs = Inr ys \<Longrightarrow> ys = filter (\<lambda>x. p x = Inr True) xs"
  by (induction xs arbitrary: ys) (auto split: sum.splits if_splits)

lemma filter_err_total:
  "(\<forall>x \<in> set xs. \<exists>b. p x = Inr b) \<Longrightarrow> \<exists>ys. filter_err p xs = Inr ys"
  by (induction xs) (auto split: sum.splits)

lemma id_test_Inr_True:
  "((case get_prop x ''id'' of Inl e \<Rightarrow> Inl e | Inr v \<Rightarrow> Inr (\<not> strict_equals v ident)) = Inr True)
     = (\<not> has_id ident x \<and> get_prop x ''id'' \<noteq> Inl TypeError)"
  by (auto simp: has_id_def get_prop_def split: sum.splits jsval.splits)

lemma filter_err_no_error:
  "filter_err p xs = Inr ys \<Longrightarrow> x \<in> set xs \<Longrightarrow> \<exists>b. p x = Inr b"
  by (induction xs arbitrary: ys) (auto split: sum.splits)

lemma removeExpense_result:
  assumes "removeExpense True ident s = (s', None)"
  shows "s' = s\<lparr>expenses := filter (\<lambda>x. \<not> has_id ident x) (expenses s), expenses_set := True\<rparr>"
proof -
  let ?p = "\<lambda>x. case get_prop x ''id'' of Inl e \<Rightarrow> Inl e | Inr v \<Rightarrow> Inr (\<not> strict_equals v ident)"
  from assms obtain ys where ys: "filter_err ?p (expenses s) = Inr ys"
    and s': "s' = s\<lparr>expenses := ys, expenses_set := True\<rparr>"
    by (auto simp: removeExpense_def split: sum.splits)
  have "ys = filter (\<lambda>x. ?p x = Inr True) (expenses s)"
    using filter_err_Inr [OF ys] .
  also have "\<dots> = filter (\<lambda>x. \<not> has_id ident x) (expenses s)"
  proof (rule filter_cong [OF refl])
    fix x assume "x \<in> set (expenses s)"
    from filter_err_no_error [OF ys this] have "get_prop x ''id'' \<noteq> Inl TypeError"
      by (auto split: sum.splits)
    then show "(?p x = Inr True) = (\<not> has_id ident x)"
      by (simp add: id_test_Inr_True)
  qed
  finally show ?thesis using s' by simp
qed

text \<open>
  C10, as the code has it. When the user declines the prompt nothing changes. When the
  user confirms and no entry is \<^verbatim>\<open>null\<close>, the call does not throw; the new
  ledger is the old one without the entries whose id strictly equals the given id, the
  other entries as they were and in their order; the store, the reminder and the
  selected month are untouched; and an id that no entry has leaves the same entries. A
  call that throws changes nothing.
\<close>

theorem removeExpense_confirmed:
  "removeExpense False ident s = (s, None)
   \<and> (removeExpense True ident s = (s', None) \<longrightarrow>
        expenses s' = filter (\<lambda>x. \<not> has_id ident x) (expenses s)
        \<and> subseq (expenses s') (expenses s)
        \<and> localStorage s' = localStorage s \<and> showMonthlyReminder s' = showMonthlyReminder s
        \<and> selectedMonth s' = selectedMonth s
        \<and> ((\<forall>x \<in> set (expenses s). \<not> has_id ident x) \<longrightarrow> expenses s' = expenses s))
   \<and> (removeExpense True ident s = (s', Some e) \<longrightarrow> s' = s)
   \<and> ((\<forall>x \<in> set (expenses s). x \<noteq> JNull \<and> x \<noteq> JUndefined) \<longrightarrow>
        snd (removeExpense True ident s) = None)"
proof (intro conjI impI)
  show "removeExpense False ident s = (s, None)"
    by (simp add: removeExpense_def)
next
  assume r: "removeExpense True ident s = (s', None)"
  from removeExpense_result [OF r]
  show "expenses s' = filter (\<lambda>x. \<not> has_id ident x) (expenses s)"
    and "localStorage s' = localStorage s" and "showMonthlyReminder s' = showMonthlyReminder s"
    and "selectedMonth s' = selectedMonth s"
    by simp_all
  then show "subseq (expenses s') (expenses s)"
    by simp
  assume "\<forall>x \<in> set (expenses s). \<not> has_id ident x"
  with \<open>expenses s' = filter (\<lambda>x. \<not> has_id ident x) (expenses s)\<close>
  show "expenses s' = expenses s"
    by simp
next
  assume "removeExpense True ident s = (s', Some e)"
  then show "s' = s"
    by (auto simp: removeExpense_def split: sum.splits)
next
  assume ok: "\<forall>x \<in> set (expenses s). x \<noteq> JNull \<and> x \<noteq> JUndefined"
  let ?p = "\<lambda>x. case get_prop x ''id'' of Inl e \<Rightarrow> Inl e | Inr v \<Rightarrow> Inr (\<not> strict_equals v ident)"
  have "\<forall>x \<in> set (expenses s). \<exists>b. ?p x = Inr b"
    using ok by (auto simp: get_prop_def split: jsval.splits)
  from filter_err_total [OF this] obtain ys where "filter_err ?p (expenses s) = Inr ys" ..
  then show "snd (removeExpense True ident s) = None"
    by (simp add: removeExpense_def)
qed

theorem removeExpense_confirmed_witness:
  "expenses (fst (removeExpense True (JStr ''a'') ledger_a_b_a)) = [entry_b]
   \<and> expenses (fst (removeExpense True (JStr ''c'') ledger_a_b_a)) = [entry_a, entry_b, entry_a]
   \<and> snd (removeExpense True (JStr ''a'') ledger_a_b_a) = None"
proof -
  let ?a = "removeExpense True (JStr ''a'') ledger_a_b_a"
  let ?c = "removeExpense True (JStr ''c'') ledger_a_b_a"
  have ex: "expenses ledger_a_b_a = [entry_a, entry_b, entry_a]"
    by (simp add: ledger_a_b_a_def)
  have ok: "\<forall>x \<in> set (expenses ledger_a_b_a). x \<noteq> JNull \<and> x \<noteq> JUndefined"
    by (simp add: ex entry_a_def entry_b_def)
  have ids: "has_id (JStr ''a'') entry_a" "\<not> has_id (JStr ''a'') entry_b"
    "\<not> has_id (JStr ''c'') entry_a" "\<not> has_id (JStr ''c'') entry_b"
    by (simp_all add: has_id_def entry_a_def entry_b_def get_prop_def)
  from removeExpense_confirmed [of "JStr ''a''" ledger_a_b_a "fst ?a" TypeError] ok
  have a: "?a = (fst ?a, None)"
    by (simp add: prod_eq_iff)
  from removeExpense_confirmed [of "JStr ''c''" ledger_a_b_a "fst ?c" TypeError] ok
  have c: "?c = (fst ?c, None)"
    by (simp add: prod_eq_iff)
  from removeExpense_confirmed [of "JStr ''a''" ledger_a_b_a "fst ?a" TypeError] a
  have "expenses (fst ?a) = filter (\<lambda>x. \<not> has_id (JStr ''a'') x) (expenses ledger_a_b_a)"
    by blast
  moreover
  from removeExpense_confirmed [of "JStr ''c''" ledger_a_b_a "fst ?c" TypeError] c
  have "(\<forall>x \<in> set (expenses ledger_a_b_a). \<not> has_id (JStr ''c'') x)
        \<longrightarrow> expenses (fst ?c) = expenses ledger_a_b_a"
    by blast
  ultimately show ?thesis
    using a by (simp add: ex ids) (metis snd_conv)
qed

text \<open>
  C10 as stated fails: the ledger has entries with the id \<^verbatim>\<open>a\<close>, and when the
  user declines the prompt \<^verbatim>\<open>removeExpense\<close> removes none of them.
\<close>

theorem removeExpense_declined_counterexample:
  "has_id (JStr ''a'') entry_a
   \<and> expenses ledger_a_b_a = [entry_a, entry_b, entry_a]
   \<and> expenses (fst (removeExpense False (JStr ''a'') ledger_a_b_a)) = [entry_a, entry_b, entry_a]"
  by (simp add: removeExpense_def ledger_a_b_a_def has_id_def entry_a_def get_prop_def)

end
